theory Spec2Isabelle
  imports Complex_Main
begin

section \<open>Shallow embedding of \<^verbatim>\<open>mnist_mask.py\<close>\<close>

text \<open>
  The embedding covers the two parts of \<^verbatim>\<open>src/mnist_mask.py\<close> that carry logic of their
  own: the contour-union bounding box of the glyph extraction (\<^verbatim>\<open>max_bounding_box\<close>,
  \<^verbatim>\<open>crop_and_mask\<close>) and the placement of letters in a scene (\<^verbatim>\<open>do_boxes_intersect\<close>,
  \<^verbatim>\<open>random_anchor\<close>, \<^verbatim>\<open>random_color\<close>, the letter loop of \<^verbatim>\<open>create_random_image\<close>).
  Python integers are \<^typ>\<open>int\<close>, the blend weight is a \<^typ>\<open>real\<close> (exact arithmetic in
  place of Python's doubles), exceptions are values of a sum type, the module-level
  dictionary \<^verbatim>\<open>VALID_COLORS\<close> is a map that is passed in and returned, and every draw of
  the random generator is an explicit argument.
\<close>

subsection \<open>Exceptions and the random generator\<close>

text \<open>
  The source defines no exception class and has no \<^verbatim>\<open>raise\<close> statement. The only
  exceptions its own control flow can produce come from the Python runtime:
  \<^verbatim>\<open>IndexError\<close> (indexing an empty list, \<^verbatim>\<open>random.choice\<close> of an empty sequence) and
  \<^verbatim>\<open>ValueError\<close> (\<^verbatim>\<open>random.randint\<close> on an empty range).
\<close>

datatype pyerr = IndexError | ValueError

text \<open>
  \<^verbatim>\<open>random.choice(seq)\<close> is \<^verbatim>\<open>seq[randbelow(len(seq))]\<close> and raises \<^verbatim>\<open>IndexError\<close> when
  the sequence is empty. The argument \<open>k\<close> is the generator's raw draw; \<open>k mod n\<close> is
  the index below \<open>n\<close> it yields, so every index is reached by some draw.
\<close>

definition random_choice :: "'a list \<Rightarrow> nat \<Rightarrow> pyerr + 'a" where
  "random_choice seq k =
     (if seq = [] then Inl IndexError else Inr (seq ! (k mod length seq)))"

text \<open>
  \<^verbatim>\<open>random.randint(a, b)\<close> returns \<^verbatim>\<open>a + randbelow(b - a + 1)\<close>, both ends included,
  and raises \<^verbatim>\<open>ValueError\<close> when \<^verbatim>\<open>b < a\<close>.
\<close>

definition random_randint :: "int \<Rightarrow> int \<Rightarrow> nat \<Rightarrow> pyerr + int" where
  "random_randint a b k =
     (if b < a then Inl ValueError else Inr (a + int (k mod nat (b - a + 1))))"

text \<open>\<^verbatim>\<open>range(a, b)\<close>: the integers from \<open>a\<close> up to, and without, \<open>b\<close>.\<close>

definition py_range :: "int \<Rightarrow> int \<Rightarrow> int list" where
  "py_range a b = [a..b - 1]"

subsection \<open>Boxes and the intersection predicate\<close>

text \<open>A box is \<^verbatim>\<open>((x, y), (w, h))\<close>: upper left corner, then width and height.\<close>

type_synonym box = "(int \<times> int) \<times> (int \<times> int)"

text \<open>
  \<^verbatim>\<open>do_boxes_intersect(box, *other_boxes)\<close> (lines 462-476): the loop returns \<^verbatim>\<open>True\<close> at
  the first other box that passes the test, \<^verbatim>\<open>False\<close> after the last.
\<close>

fun do_boxes_intersect :: "box \<Rightarrow> box list \<Rightarrow> bool" where
  "do_boxes_intersect box [] = False"
| "do_boxes_intersect ((x, y), (w, h)) (((other_x, other_y), (other_w, other_h)) # other_boxes) =
     (if ((other_x \<le> x \<and> x \<le> other_x + other_w) \<or> (x \<le> other_x \<and> other_x \<le> x + w)) \<and>
         ((other_y \<le> y \<and> y \<le> other_y + other_h) \<or> (y \<le> other_y \<and> other_y \<le> y + h))
      then True
      else do_boxes_intersect ((x, y), (w, h)) other_boxes)"

subsection \<open>Choosing an anchor\<close>

text \<open>
  The list comprehension of \<^verbatim>\<open>random_anchor\<close> (lines 455-458): \<^verbatim>\<open>x\<close> runs over
  \<^verbatim>\<open>range(0, xdimension-w)\<close>, \<^verbatim>\<open>y\<close> over \<^verbatim>\<open>range(0, ydimension-h)\<close>.
\<close>

definition anchor_candidates :: "int \<Rightarrow> int \<Rightarrow> int \<Rightarrow> int \<Rightarrow> box list \<Rightarrow> (int \<times> int) list" where
  "anchor_candidates w h xdimension ydimension occupied_boxes =
     [(x, y). x \<leftarrow> py_range 0 (xdimension - w), y \<leftarrow> py_range 0 (ydimension - h),
              \<not> do_boxes_intersect ((x, y), (w, h)) occupied_boxes]"

text \<open>
  \<^verbatim>\<open>random_anchor\<close> (lines 440-459). \<^verbatim>\<open>occupied_boxes=None\<close> is \<open>None\<close>; a list, also the
  empty one, is \<open>Some\<close>. \<^verbatim>\<open>valid_box_anchors or [...]\<close> takes the argument when it is a
  non-empty list and the comprehension otherwise. The first branch makes two draws, the
  second one.
\<close>

definition random_anchor ::
  "int \<Rightarrow> int \<Rightarrow> int \<Rightarrow> int \<Rightarrow> box list option \<Rightarrow> (int \<times> int) list option \<Rightarrow> nat \<times> nat
     \<Rightarrow> pyerr + (int \<times> int)" where
  "random_anchor w h xdimension ydimension occupied_boxes valid_box_anchors draws =
     (case occupied_boxes of
        None \<Rightarrow>
          (case random_randint 0 (xdimension - w) (fst draws) of
             Inl e \<Rightarrow> Inl e
           | Inr x \<Rightarrow>
               (case random_randint 0 (ydimension - h) (snd draws) of
                  Inl e \<Rightarrow> Inl e
                | Inr y \<Rightarrow> Inr (x, y)))
      | Some occupied \<Rightarrow>
          random_choice
            (case valid_box_anchors of
               Some (a # as) \<Rightarrow> a # as
             | _ \<Rightarrow> anchor_candidates w h xdimension ydimension occupied)
            (fst draws))"

subsection \<open>Colours under a brightness bound\<close>

type_synonym color = "int \<times> int \<times> int"

text \<open>\<^verbatim>\<open>valid_colors\<close> (lines 28-32).\<close>

definition valid_colors :: "int \<Rightarrow> color list" where
  "valid_colors max_brightness =
     [(r, g, b). r \<leftarrow> py_range 0 255, g \<leftarrow> py_range 0 255, b \<leftarrow> py_range 0 255,
                 r + g + b < max_brightness]"

definition MAX_BRIGHTNESS :: int where
  "MAX_BRIGHTNESS = 200"

text \<open>The module-level dictionary \<^verbatim>\<open>VALID_COLORS\<close> as the module leaves it after import.\<close>

definition VALID_COLORS_initial :: "int \<rightharpoonup> color list" where
  "VALID_COLORS_initial = [MAX_BRIGHTNESS \<mapsto> valid_colors MAX_BRIGHTNESS]"

text \<open>
  \<^verbatim>\<open>random_color\<close> (lines 374-387) reads and updates the dictionary; the model takes it
  as an argument and returns it. The entry is stored before \<^verbatim>\<open>random.choice\<close> runs, so
  the dictionary is updated also when the choice raises.
\<close>

definition random_color ::
  "int \<Rightarrow> nat \<Rightarrow> (int \<rightharpoonup> color list) \<Rightarrow> (pyerr + color) \<times> (int \<rightharpoonup> color list)" where
  "random_color max_brightness k VALID_COLORS =
     (let VALID_COLORS' =
        (if max_brightness \<notin> dom VALID_COLORS
         then VALID_COLORS(max_brightness \<mapsto> valid_colors max_brightness)
         else VALID_COLORS)
      in (random_choice (the (VALID_COLORS' max_brightness)) k, VALID_COLORS'))"

subsection \<open>The letter loop of scene composition\<close>

text \<open>
  What the loop of \<^verbatim>\<open>create_random_image\<close> (lines 316-340) reads for one letter: the label
  and mask delivered by \<^verbatim>\<open>random_letter\<close> and \<^verbatim>\<open>resized_image_from_file\<close>, the shape
  of the resized letter image (\<^verbatim>\<open>letter.shape[1]\<close>, \<^verbatim>\<open>letter.shape[0]\<close>), and the two draws
  of the iteration (colour, anchor). Files, resizing and pixel values belong to the
  image library and are inputs here.
\<close>

record letter =
  letter_label :: string
  letter_w :: int
  letter_h :: int
  letter_mask :: "int list list"
  color_draw :: nat
  anchor_draw :: nat

text \<open>The dictionary built by \<^verbatim>\<open>to_match_dict\<close> (lines 562-567).\<close>

record match =
  match_label :: string
  bounding_box :: "(int \<times> int) \<times> (int \<times> int)"
  match_mask :: "int list list"

definition to_match_dict :: "string \<Rightarrow> (int \<times> int) \<times> (int \<times> int) \<Rightarrow> int list list \<Rightarrow> match" where
  "to_match_dict lbl bbox msk = \<lparr>match_label = lbl, bounding_box = bbox, match_mask = msk\<rparr>"

text \<open>
  The variables the loop updates: the lists \<^verbatim>\<open>occupied_boxes\<close> and \<^verbatim>\<open>matches\<close>, and the
  module's \<^verbatim>\<open>VALID_COLORS\<close>. The canvas pixels written by \<^verbatim>\<open>cv2.addWeighted\<close> are not
  part of the state: no later step of the loop reads them.
\<close>

record loop_state =
  occupied_boxes :: "box list"
  matches :: "match list"
  VALID_COLORS :: "int \<rightharpoonup> color list"

text \<open>
  One iteration (lines 318-340): colour, then anchor against the boxes recorded so far
  (\<^verbatim>\<open>occupied_boxes=occupied_boxes\<close>, a list, never \<^verbatim>\<open>None\<close>), then the two appends.
\<close>

definition place_letter :: "int \<Rightarrow> int \<Rightarrow> int \<Rightarrow> int \<Rightarrow> letter \<Rightarrow> loop_state \<Rightarrow> pyerr + loop_state" where
  "place_letter max_overlap xdimension ydimension max_brightness l st =
     (case random_color max_brightness (color_draw l) (VALID_COLORS st) of
        (Inl e, _) \<Rightarrow> Inl e
      | (Inr col, colors) \<Rightarrow>
          (let w = letter_w l; h = letter_h l in
           case random_anchor w h xdimension ydimension (Some (occupied_boxes st)) None
                  (anchor_draw l, 0) of
             Inl e \<Rightarrow> Inl e
           | Inr (x, y) \<Rightarrow>
               Inr \<lparr>occupied_boxes = occupied_boxes st @
                       [((x + max_overlap, y + max_overlap),
                         (w - 2 * max_overlap, h - 2 * max_overlap))],
                    matches = matches st @
                       [to_match_dict (letter_label l) ((x, y), (x + w, y + h)) (letter_mask l)],
                    VALID_COLORS = colors\<rparr>))"

fun place_letters :: "int \<Rightarrow> int \<Rightarrow> int \<Rightarrow> int \<Rightarrow> letter list \<Rightarrow> loop_state \<Rightarrow> pyerr + loop_state" where
  "place_letters max_overlap xdimension ydimension max_brightness [] st = Inr st"
| "place_letters max_overlap xdimension ydimension max_brightness (l # ls) st =
     (case place_letter max_overlap xdimension ydimension max_brightness l st of
        Inl e \<Rightarrow> Inl e
      | Inr st' \<Rightarrow> place_letters max_overlap xdimension ydimension max_brightness ls st')"

text \<open>
  The integer parameters of \<^verbatim>\<open>create_random_image\<close> that its control flow reads. The
  float parameter \<^verbatim>\<open>max_height_variance\<close> only scales the letter images, whose shapes are
  inputs here; \<^verbatim>\<open>max_alpha\<close> enters the blend weight alone, which is modelled on its own
  below.
\<close>

record config =
  min_letters :: int
  max_letters :: int
  min_lettersize :: int
  max_lettersize :: int
  max_overlap :: int
  xdimension :: int
  ydimension :: int
  max_brightness :: int

definition default_config :: config where
  "default_config = \<lparr>min_letters = 0, max_letters = 8, min_lettersize = 28, max_lettersize = 60,
     max_overlap = 5, xdimension = 400, ydimension = 300, max_brightness = MAX_BRIGHTNESS\<rparr>"

text \<open>
  The outcome of everything random or read from disk in one call: the draws for the
  number of letters and the average height, and the letter that the \<open>i\<close>-th call of
  \<^verbatim>\<open>random_letter\<close> and the resizing deliver.
\<close>

record environment =
  num_letters_draw :: nat
  avg_height_draw :: nat
  letter_at :: "nat \<Rightarrow> letter"

text \<open>
  \<^verbatim>\<open>create_random_image\<close> from line 301 on. The result is the final state of the loop:
  its \<open>matches\<close> are the list the function returns (the empty tuple when
  \<^verbatim>\<open>num_letters == 0\<close>), its \<open>occupied_boxes\<close> the local list of the same name.
\<close>

definition create_random_image :: "config \<Rightarrow> environment \<Rightarrow> (int \<rightharpoonup> color list) \<Rightarrow> pyerr + loop_state" where
  "create_random_image cfg env colors =
     (case random_randint (min_letters cfg) (max_letters cfg) (num_letters_draw env) of
        Inl e \<Rightarrow> Inl e
      | Inr num_letters \<Rightarrow>
          if num_letters = 0
          then Inr \<lparr>occupied_boxes = [], matches = [], VALID_COLORS = colors\<rparr>
          else
            (let letterfiles = map (letter_at env) [0..<nat num_letters] in
             case random_randint (min_lettersize cfg) (max_lettersize cfg) (avg_height_draw env) of
               Inl e \<Rightarrow> Inl e
             | Inr avg_height \<Rightarrow>
                 place_letters (max_overlap cfg) (xdimension cfg) (ydimension cfg)
                   (max_brightness cfg) letterfiles
                   \<lparr>occupied_boxes = [], matches = [], VALID_COLORS = colors\<rparr>))"


subsection \<open>Glyph extraction\<close>

text \<open>
  The functions of the image library that \<^verbatim>\<open>mask_by_threshold\<close>, \<^verbatim>\<open>max_bounding_box\<close> and
  \<^verbatim>\<open>crop_and_mask\<close> call, as parameters: \<^verbatim>\<open>cv2.bitwise_not\<close>, \<^verbatim>\<open>cv2.cvtColor\<close> to
  grayscale, \<^verbatim>\<open>cv2.threshold\<close> (source, threshold, maximal value; type 0),
  \<^verbatim>\<open>cv2.findContours\<close> (its list of contours), \<^verbatim>\<open>cv2.boundingRect\<close>, \<^verbatim>\<open>cv2.rectangle\<close>,
  and the array slice \<^verbatim>\<open>a[ymin:ymax, xmin:xmax]\<close>.
\<close>

record ('img, 'cnt) cv2 =
  bitwise_not :: "'img \<Rightarrow> 'img"
  cvtColor_gray :: "'img \<Rightarrow> 'img"
  threshold :: "'img \<Rightarrow> int \<Rightarrow> int \<Rightarrow> 'img"
  findContours :: "'img \<Rightarrow> 'cnt list"
  boundingRect :: "'cnt \<Rightarrow> int \<times> int \<times> int \<times> int"
  rectangle :: "'img \<Rightarrow> int \<times> int \<Rightarrow> int \<times> int \<Rightarrow> color \<Rightarrow> 'img"
  slice :: "'img \<Rightarrow> int \<Rightarrow> int \<Rightarrow> int \<Rightarrow> int \<Rightarrow> 'img"

definition THRESHOLD :: int where
  "THRESHOLD = 100"

definition BOUNDING_BOX_COLOR :: color where
  "BOUNDING_BOX_COLOR = (0, 255, 0)"

definition MAX_BOUNDING_BOX_COLOR :: color where
  "MAX_BOUNDING_BOX_COLOR = (0, 0, 255)"

text \<open>\<^verbatim>\<open>mask_by_threshold\<close> (lines 58-73).\<close>

definition mask_by_threshold :: "('img, 'cnt) cv2 \<Rightarrow> 'img \<Rightarrow> int \<Rightarrow> bool \<Rightarrow> 'img" where
  "mask_by_threshold lib img thresh inverted =
     (let img' = (if \<not> inverted then bitwise_not lib img else img);
          image_grayscale = cvtColor_gray lib img'
      in threshold lib image_grayscale thresh 255)"

text \<open>
  The \<^verbatim>\<open>for cnt in contours\<close> loop of \<^verbatim>\<open>max_bounding_box\<close> (lines 93-98). The accumulator
  holds \<^verbatim>\<open>boxes_xmin, boxes_ymin, boxes_xmax, boxes_ymax\<close> and the image the boxes are drawn
  into, when there is one.
\<close>

fun contours_loop ::
  "('img, 'cnt) cv2 \<Rightarrow> color \<Rightarrow> 'cnt list \<Rightarrow> (int \<times> int \<times> int \<times> int) \<times> 'img option
     \<Rightarrow> (int \<times> int \<times> int \<times> int) \<times> 'img option" where
  "contours_loop lib bounding_box_color [] acc = acc"
| "contours_loop lib bounding_box_color (cnt # cnts)
       ((boxes_xmin, boxes_ymin, boxes_xmax, boxes_ymax), apply_boxes_image) =
     (case boundingRect lib cnt of
        (x, y, w, h) \<Rightarrow>
          contours_loop lib bounding_box_color cnts
            ((min x boxes_xmin, min y boxes_ymin, max (x + w) boxes_xmax, max (y + h) boxes_ymax),
             (case apply_boxes_image of
                None \<Rightarrow> None
              | Some img \<Rightarrow> Some (rectangle lib img (x, y) (x + w, y + h) bounding_box_color))))"

text \<open>
  \<^verbatim>\<open>max_bounding_box\<close> (lines 76-99). \<^verbatim>\<open>contours[0]\<close> raises \<^verbatim>\<open>IndexError\<close> on the empty
  list. The function returns the two corner points; the model returns the image drawn
  into as well, which the Python changes in place.
\<close>

definition max_bounding_box ::
  "('img, 'cnt) cv2 \<Rightarrow> 'img \<Rightarrow> 'img option \<Rightarrow> color
     \<Rightarrow> pyerr + (((int \<times> int) \<times> (int \<times> int)) \<times> 'img option)" where
  "max_bounding_box lib mask_image apply_boxes_image bounding_box_color =
     (let contours = findContours lib mask_image in
      case contours of
        [] \<Rightarrow> Inl IndexError
      | cnt0 # _ \<Rightarrow>
          (case boundingRect lib cnt0 of
             (boxes_xmin, boxes_ymin, wstart, hstart) \<Rightarrow>
               (case contours_loop lib bounding_box_color contours
                       ((boxes_xmin, boxes_ymin, boxes_xmin + wstart, boxes_ymin + hstart),
                        apply_boxes_image) of
                  ((xmin, ymin, xmax, ymax), img) \<Rightarrow> Inr (((xmin, ymin), (xmax, ymax)), img))))"

text \<open>\<^verbatim>\<open>crop_and_mask\<close> (lines 102-124).\<close>

definition crop_and_mask :: "('img, 'cnt) cv2 \<Rightarrow> 'img \<Rightarrow> bool \<Rightarrow> bool \<Rightarrow> pyerr + ('img \<times> 'img)" where
  "crop_and_mask lib img inverted debug =
     (let mask_image = mask_by_threshold lib img THRESHOLD inverted in
      case max_bounding_box lib mask_image (if debug then Some img else None)
             BOUNDING_BOX_COLOR of
        Inl e \<Rightarrow> Inl e
      | Inr ((box_pt1, box_pt2), drawn) \<Rightarrow>
          if debug
          then Inr (rectangle lib (case drawn of Some img' \<Rightarrow> img' | None \<Rightarrow> img)
                      box_pt1 box_pt2 MAX_BOUNDING_BOX_COLOR,
                    mask_image)
          else
            (case (box_pt1, box_pt2) of
               ((xmin, ymin), (xmax, ymax)) \<Rightarrow>
                 Inr (slice lib img ymin ymax xmin xmax,
                      slice lib mask_image ymin ymax xmin xmax)))"

text \<open>
  A small instance of the library interface on grayscale images given as lists of rows,
  for evaluating the functions above on concrete images. A contour is a list of points;
  each foreground pixel is reported as a contour of its own, whose bounding rectangle
  is that pixel. Drawing leaves the pixels as they are.
\<close>

definition pixel_contours :: "int list list \<Rightarrow> (int \<times> int) list list" where
  "pixel_contours img =
     [[(int x, int y)]. y \<leftarrow> [0..<length img], x \<leftarrow> [0..<length (img ! y)], img ! y ! x \<noteq> 0]"

fun points_rect :: "(int \<times> int) list \<Rightarrow> int \<times> int \<times> int \<times> int" where
  "points_rect [] = (0, 0, 0, 0)"
| "points_rect ((x, y) # ps) =
     (let xs = x # map fst ps; ys = y # map snd ps
      in (fold min xs x, fold min ys y, fold max xs x - fold min xs x + 1,
          fold max ys y - fold min ys y + 1))"

definition list_slice :: "int list list \<Rightarrow> int \<Rightarrow> int \<Rightarrow> int \<Rightarrow> int \<Rightarrow> int list list" where
  "list_slice img ymin ymax xmin xmax =
     map (\<lambda>row. take (nat (xmax - xmin)) (drop (nat xmin) row))
       (take (nat (ymax - ymin)) (drop (nat ymin) img))"

definition gray_lib :: "(int list list, (int \<times> int) list) cv2" where
  "gray_lib = \<lparr>bitwise_not = map (map (\<lambda>v. 255 - v)),
     cvtColor_gray = (\<lambda>img. img),
     threshold = (\<lambda>img t maxval. map (map (\<lambda>v. if t < v then maxval else 0)) img),
     findContours = pixel_contours,
     boundingRect = points_rect,
     rectangle = (\<lambda>img p q c. img),
     slice = list_slice\<rparr>"

subsection \<open>Notions the stated properties use\<close>

text \<open>
  These definitions do not come from the source; they fix the meaning of the words of
  the properties proved below. A box is well formed when its width and height are not
  negative. Box \<open>B\<close> contains box \<open>A\<close> when \<open>A\<close>'s corners lie within \<open>B\<close>; this is
  containment of the regions for a well-formed \<open>A\<close>, and it is used for such boxes only. The
  interval-overlap test compares the closed ranges \<open>[x, x + w]\<close> and \<open>[y, y + h]\<close> of
  the two boxes.
\<close>

definition well_formed :: "box \<Rightarrow> bool" where
  "well_formed A = (case A of ((x, y), (w, h)) \<Rightarrow> 0 \<le> w \<and> 0 \<le> h)"

definition box_contains :: "box \<Rightarrow> box \<Rightarrow> bool" where
  "box_contains B A =
     (case (B, A) of
        (((bx, by), (bw, bh)), ((ax, ay), (aw, ah))) \<Rightarrow>
          bx \<le> ax \<and> ax + aw \<le> bx + bw \<and> by \<le> ay \<and> ay + ah \<le> by + bh)"

definition interval_overlap :: "box \<Rightarrow> box \<Rightarrow> bool" where
  "interval_overlap A B =
     (case (A, B) of
        (((ax, ay), (aw, ah)), ((bx, by), (bw, bh))) \<Rightarrow>
          ax \<le> bx + bw \<and> bx \<le> ax + aw \<and> ay \<le> by + bh \<and> by \<le> ay + ah)"

text \<open>
  The region that belongs to a match: its bounding box \<open>((x1, y1), (x2, y2))\<close> moved
  inwards by the margin \<open>m\<close> on every side, in the \<^verbatim>\<open>((x, y), (w, h))\<close> form of the
  occupied boxes.
\<close>

definition occupied_region :: "int \<Rightarrow> match \<Rightarrow> box" where
  "occupied_region m mt =
     (case bounding_box mt of
        ((x1, y1), (x2, y2)) \<Rightarrow> ((x1 + m, y1 + m), ((x2 - x1) - 2 * m, (y2 - y1) - 2 * m)))"

text \<open>A match lies within the canvas when both corners of its bounding box do.\<close>

definition within_canvas :: "int \<Rightarrow> int \<Rightarrow> match \<Rightarrow> bool" where
  "within_canvas canvas_width canvas_height mt =
     (case bounding_box mt of
        ((x1, y1), (x2, y2)) \<Rightarrow> 0 \<le> x1 \<and> x2 \<le> canvas_width \<and> 0 \<le> y1 \<and> y2 \<le> canvas_height)"

text \<open>No two boxes of a list, at different positions, satisfy the intersection predicate.\<close>

definition separated :: "box list \<Rightarrow> bool" where
  "separated bs = (\<forall>i j. i < length bs \<and> j < length bs \<and> i \<noteq> j \<longrightarrow>
                     \<not> do_boxes_intersect (bs ! i) [bs ! j])"

text \<open>
  The dictionary holds correct entries when every stored list is the list
  \<^verbatim>\<open>valid_colors\<close> computes for its key.
\<close>

definition cache_ok :: "(int \<rightharpoonup> color list) \<Rightarrow> bool" where
  "cache_ok colors = (\<forall>key cs. colors key = Some cs \<longrightarrow> cs = valid_colors key)"

text \<open>The four sides of a bounding rectangle \<^verbatim>\<open>(x, y, w, h)\<close>.\<close>

definition rect_left :: "int \<times> int \<times> int \<times> int \<Rightarrow> int" where
  "rect_left r = (case r of (x, y, w, h) \<Rightarrow> x)"

definition rect_top :: "int \<times> int \<times> int \<times> int \<Rightarrow> int" where
  "rect_top r = (case r of (x, y, w, h) \<Rightarrow> y)"

definition rect_right :: "int \<times> int \<times> int \<times> int \<Rightarrow> int" where
  "rect_right r = (case r of (x, y, w, h) \<Rightarrow> x + w)"

definition rect_bottom :: "int \<times> int \<times> int \<times> int \<Rightarrow> int" where
  "rect_bottom r = (case r of (x, y, w, h) \<Rightarrow> y + h)"

subsection \<open>Concrete scenes\<close>

text \<open>
  Inputs on which the functions are evaluated below: a letter of a given size, the state
  at the start of the loop, a canvas of 50 by 26 pixels with two letters of 24 by 24
  pixels, and a canvas of 26 by 25 pixels where the second letter is 3 pixels wide,
  narrower than the margin of 5.
\<close>

definition letter_of_size :: "int \<Rightarrow> int \<Rightarrow> nat \<Rightarrow> letter" where
  "letter_of_size w h k =
     \<lparr>letter_label = ''1'', letter_w = w, letter_h = h, letter_mask = [],
      color_draw = 0, anchor_draw = k\<rparr>"

definition empty_state :: loop_state where
  "empty_state = \<lparr>occupied_boxes = [], matches = [], VALID_COLORS = VALID_COLORS_initial\<rparr>"

definition wide_config :: config where
  "wide_config = default_config\<lparr>min_letters := 2, max_letters := 2, xdimension := 50, ydimension := 26\<rparr>"

definition wide_environment :: environment where
  "wide_environment = \<lparr>num_letters_draw = 0, avg_height_draw = 0,
     letter_at = (\<lambda>i. letter_of_size 24 24 0)\<rparr>"

definition narrow_config :: config where
  "narrow_config = default_config\<lparr>min_letters := 2, max_letters := 2, xdimension := 26, ydimension := 25\<rparr>"

definition narrow_environment :: environment where
  "narrow_environment = \<lparr>num_letters_draw = 0, avg_height_draw = 0,
     letter_at = (\<lambda>i. if i = 0 then letter_of_size 24 24 0 else letter_of_size 3 24 1)\<rparr>"

section \<open>The intersection predicate is the closed-interval overlap test\<close>

lemma do_boxes_intersect_single:
  "do_boxes_intersect ((x, y), (w, h)) [((ox, oy), (ow, oh))] \<longleftrightarrow>
     ((ox \<le> x \<and> x \<le> ox + ow) \<or> (x \<le> ox \<and> ox \<le> x + w)) \<and>
     ((oy \<le> y \<and> y \<le> oy + oh) \<or> (y \<le> oy \<and> oy \<le> y + h))"
  by simp

lemma do_boxes_intersect_iff:
  "do_boxes_intersect b others \<longleftrightarrow> (\<exists>ob \<in> set others. do_boxes_intersect b [ob])"
proof (induction others)
  case Nil
  then show ?case by simp
next
  case (Cons ob others)
  obtain x y w h where b: "b = ((x, y), (w, h))" by (metis prod.collapse)
  obtain ox oy ow oh where ob: "ob = ((ox, oy), (ow, oh))" by (metis prod.collapse)
  from Cons show ?case unfolding b ob by auto
qed

lemma interval_overlap_imp_intersect:
  "interval_overlap A B \<Longrightarrow> do_boxes_intersect A [B]"
proof -
  obtain ax ay aw ah where A: "A = ((ax, ay), (aw, ah))" by (metis prod.collapse)
  obtain bx "by" bw bh where B: "B = ((bx, by), (bw, bh))" by (metis prod.collapse)
  assume "interval_overlap A B"
  then show ?thesis unfolding A B interval_overlap_def by auto
qed

lemma intersect_imp_interval_overlap:
  "well_formed A \<Longrightarrow> well_formed B \<Longrightarrow> do_boxes_intersect A [B] \<Longrightarrow> interval_overlap A B"
proof -
  obtain ax ay aw ah where A: "A = ((ax, ay), (aw, ah))" by (metis prod.collapse)
  obtain bx "by" bw bh where B: "B = ((bx, by), (bw, bh))" by (metis prod.collapse)
  assume "well_formed A" "well_formed B" "do_boxes_intersect A [B]"
  then show ?thesis unfolding A B interval_overlap_def well_formed_def
    by (auto split: if_splits)
qed

lemma contains_imp_interval_overlap:
  "well_formed A \<Longrightarrow> box_contains B A \<Longrightarrow> interval_overlap A B"
proof -
  obtain ax ay aw ah where A: "A = ((ax, ay), (aw, ah))" by (metis prod.collapse)
  obtain bx "by" bw bh where B: "B = ((bx, by), (bw, bh))" by (metis prod.collapse)
  assume "well_formed A" "box_contains B A"
  then show ?thesis unfolding A B interval_overlap_def well_formed_def box_contains_def by auto
qed

text \<open>
  Claim C4 says that there are boxes \<open>A\<close> and \<open>B\<close>, \<open>B\<close> containing \<open>A\<close>, on which
  \<^verbatim>\<open>do_boxes_intersect(A, B)\<close> is false, so that the predicate is weaker than the
  interval-overlap test. The code has no such pair: no well-formed box contained in
  another escapes the predicate, and whatever the interval-overlap test accepts the
  predicate accepts too (for all integers, also negative sizes).
\<close>

theorem C4_no_missed_containment:
  "\<not> (\<exists>A B. well_formed A \<and> box_contains B A \<and> \<not> do_boxes_intersect A [B]) \<and>
   \<not> (\<exists>A B. interval_overlap A B \<and> \<not> do_boxes_intersect A [B])"
  using contains_imp_interval_overlap interval_overlap_imp_intersect by blast

text \<open>
  Claim C4, as the code has it: on well-formed boxes \<^verbatim>\<open>do_boxes_intersect\<close> is exactly
  the closed-interval overlap test on both axes (boxes that only touch count as
  intersecting), and it is true whenever the second box contains the first.
\<close>

theorem C4_intersect_is_interval_overlap:
  assumes "well_formed A" and "well_formed B"
  shows "do_boxes_intersect A [B] = interval_overlap A B \<and>
         (box_contains B A \<longrightarrow> do_boxes_intersect A [B])"
  using assms intersect_imp_interval_overlap interval_overlap_imp_intersect
    contains_imp_interval_overlap by blast

theorem C4_intersect_is_interval_overlap_witness:
  "well_formed ((2, 2), (1, 1)) \<and> well_formed ((0, 0), (5, 5)) \<and>
   box_contains ((0, 0), (5, 5)) ((2, 2), (1, 1)) \<and>
   interval_overlap ((2, 2), (1, 1)) ((0, 0), (5, 5)) \<and>
   do_boxes_intersect ((2, 2), (1, 1)) [((0, 0), (5, 5))]"
proof -
  have a: "well_formed ((2, 2), (1, 1))" by (simp add: well_formed_def)
  have b: "well_formed ((0, 0), (5, 5))" by (simp add: well_formed_def)
  have c: "box_contains ((0, 0), (5, 5)) ((2, 2), (1, 1))" by (simp add: box_contains_def)
  from C4_intersect_is_interval_overlap [OF a b] c a b show ?thesis by simp
qed

section \<open>Anchors and the letter loop\<close>

lemma set_py_range: "set (py_range a b) = {x. a \<le> x \<and> x < b}"
  by (auto simp: py_range_def)

lemma set_anchor_candidates:
  "set (anchor_candidates w h xd yd occ) =
     {(x, y). 0 \<le> x \<and> x < xd - w \<and> 0 \<le> y \<and> y < yd - h \<and>
              \<not> do_boxes_intersect ((x, y), (w, h)) occ}"
  by (auto simp: anchor_candidates_def set_py_range)

lemma random_choice_Inr: "random_choice xs k = Inr v \<Longrightarrow> v \<in> set xs"
  by (auto simp: random_choice_def split: if_splits)

lemma random_choice_Inl: "random_choice xs k = Inl e \<longleftrightarrow> xs = [] \<and> e = IndexError"
  by (auto simp: random_choice_def)

lemma random_anchor_occupied:
  "random_anchor w h xd yd (Some occ) None d = random_choice (anchor_candidates w h xd yd occ) (fst d)"
  "random_anchor w h xd yd (Some occ) (Some []) d = random_choice (anchor_candidates w h xd yd occ) (fst d)"
  by (simp_all add: random_anchor_def)

lemma place_letter_Inr:
  assumes "place_letter mo xd yd mb l st = Inr st'"
  shows "\<exists>x y. (x, y) \<in> set (anchor_candidates (letter_w l) (letter_h l) xd yd (occupied_boxes st)) \<and>
           occupied_boxes st' = occupied_boxes st @
              [((x + mo, y + mo), (letter_w l - 2 * mo, letter_h l - 2 * mo))] \<and>
           matches st' = matches st @
              [to_match_dict (letter_label l) ((x, y), (x + letter_w l, y + letter_h l)) (letter_mask l)]"
proof -
  obtain rc colors where rc: "random_color mb (color_draw l) (VALID_COLORS st) = (rc, colors)"
    by (cases "random_color mb (color_draw l) (VALID_COLORS st)")
  with assms obtain col where col: "rc = Inr col"
    by (cases rc) (auto simp: place_letter_def)
  let ?ra = "random_anchor (letter_w l) (letter_h l) xd yd (Some (occupied_boxes st)) None (anchor_draw l, 0)"
  from assms rc col obtain x y where xy: "?ra = Inr (x, y)"
    by (cases ?ra) (auto simp: place_letter_def Let_def)
  then have "(x, y) \<in> set (anchor_candidates (letter_w l) (letter_h l) xd yd (occupied_boxes st))"
    by (simp add: random_anchor_occupied random_choice_Inr)
  moreover from assms rc col xy have
    "st' = \<lparr>occupied_boxes = occupied_boxes st @
              [((x + mo, y + mo), (letter_w l - 2 * mo, letter_h l - 2 * mo))],
           matches = matches st @
              [to_match_dict (letter_label l) ((x, y), (x + letter_w l, y + letter_h l)) (letter_mask l)],
           VALID_COLORS = colors\<rparr>"
    by (simp add: place_letter_def Let_def)
  ultimately show ?thesis by auto
qed

lemma place_letters_invariant:
  assumes "place_letters mo xd yd mb ls st = Inr st'"
    and "I st"
    and "\<And>l s s'. l \<in> set ls \<Longrightarrow> I s \<Longrightarrow> place_letter mo xd yd mb l s = Inr s' \<Longrightarrow> I s'"
  shows "I st'"
  using assms
proof (induction ls arbitrary: st)
  case Nil
  then show ?case by simp
next
  case (Cons l ls)
  from Cons.prems(1) obtain s1 where s1: "place_letter mo xd yd mb l st = Inr s1"
    and rest: "place_letters mo xd yd mb ls s1 = Inr st'"
    by (auto split: sum.splits)
  have first: "I s1"
    using Cons.prems(3) [of l st s1] Cons.prems(2) s1 by simp
  have step: "I s'" if "l' \<in> set ls" "I s" "place_letter mo xd yd mb l' s = Inr s'" for l' s s'
    using Cons.prems(3) [of l' s s'] that by simp
  show ?case by (rule Cons.IH [OF rest first step])
qed

lemma create_random_image_cases:
  assumes "create_random_image cfg env colors = Inr st"
  shows "\<exists>n. random_randint (min_letters cfg) (max_letters cfg) (num_letters_draw env) = Inr n \<and>
     place_letters (max_overlap cfg) (xdimension cfg) (ydimension cfg) (max_brightness cfg)
       (map (letter_at env) [0..<nat n])
       \<lparr>occupied_boxes = [], matches = [], VALID_COLORS = colors\<rparr> = Inr st"
  using assms
  by (auto simp: create_random_image_def Let_def split: sum.splits if_splits)

lemma do_boxes_intersect_sym: "do_boxes_intersect A [B] = do_boxes_intersect B [A]"
proof -
  obtain ax ay aw ah where A: "A = ((ax, ay), (aw, ah))" by (metis prod.collapse)
  obtain bx "by" bw bh where B: "B = ((bx, by), (bw, bh))" by (metis prod.collapse)
  show ?thesis unfolding A B by auto
qed

lemma deflated_intersect_imp:
  assumes "0 \<le> m" "m \<le> w" "m \<le> h"
    and "do_boxes_intersect ((x + m, y + m), (w - 2 * m, h - 2 * m)) [B]"
  shows "do_boxes_intersect ((x, y), (w, h)) [B]"
proof -
  obtain bx "by" bw bh where B: "B = ((bx, by), (bw, bh))" by (metis prod.collapse)
  from assms show ?thesis unfolding B by (auto split: if_splits)
qed

lemma candidate_deflated_free:
  assumes "(x, y) \<in> set (anchor_candidates w h xd yd occ)"
    and "0 \<le> m" "m \<le> w" "m \<le> h" and "B \<in> set occ"
  shows "\<not> do_boxes_intersect ((x + m, y + m), (w - 2 * m, h - 2 * m)) [B]"
proof
  assume "do_boxes_intersect ((x + m, y + m), (w - 2 * m, h - 2 * m)) [B]"
  then have "do_boxes_intersect ((x, y), (w, h)) [B]"
    using assms(2-4) by (rule deflated_intersect_imp [rotated 3])
  then have "do_boxes_intersect ((x, y), (w, h)) occ"
    using assms(5) do_boxes_intersect_iff by blast
  with assms(1) show False by (simp add: set_anchor_candidates)
qed

lemma occupied_region_to_match_dict:
  "occupied_region m (to_match_dict lbl ((x, y), (x + w, y + h)) msk) =
     ((x + m, y + m), (w - 2 * m, h - 2 * m))"
  by (simp add: occupied_region_def to_match_dict_def)

lemma place_letter_regions:
  assumes "place_letter mo xd yd mb l s = Inr s'"
    and "occupied_boxes s = map (occupied_region mo) (matches s)"
  shows "occupied_boxes s' = map (occupied_region mo) (matches s')"
proof -
  from place_letter_Inr [OF assms(1)] obtain x y where
    "occupied_boxes s' = occupied_boxes s @
        [((x + mo, y + mo), (letter_w l - 2 * mo, letter_h l - 2 * mo))]"
    "matches s' = matches s @
        [to_match_dict (letter_label l) ((x, y), (x + letter_w l, y + letter_h l)) (letter_mask l)]"
    by blast
  with assms(2) show ?thesis by (simp add: occupied_region_to_match_dict)
qed

lemma place_letter_within:
  assumes "place_letter mo xd yd mb l s = Inr s'"
    and "\<forall>mt \<in> set (matches s). within_canvas xd yd mt"
  shows "\<forall>mt \<in> set (matches s'). within_canvas xd yd mt"
proof -
  from place_letter_Inr [OF assms(1)] obtain x y where
    xy: "(x, y) \<in> set (anchor_candidates (letter_w l) (letter_h l) xd yd (occupied_boxes s))"
    and ms: "matches s' = matches s @
        [to_match_dict (letter_label l) ((x, y), (x + letter_w l, y + letter_h l)) (letter_mask l)]"
    by blast
  from xy have "0 \<le> x \<and> x < xd - letter_w l \<and> 0 \<le> y \<and> y < yd - letter_h l"
    by (simp add: set_anchor_candidates)
  then have "within_canvas xd yd
      (to_match_dict (letter_label l) ((x, y), (x + letter_w l, y + letter_h l)) (letter_mask l))"
    by (simp add: within_canvas_def to_match_dict_def)
  with assms(2) ms show ?thesis by auto
qed

lemma separated_snoc:
  assumes "separated bs" and "\<forall>B \<in> set bs. \<not> do_boxes_intersect N [B]"
  shows "separated (bs @ [N])"
  unfolding separated_def
proof (intro allI impI)
  fix i j
  assume ij: "i < length (bs @ [N]) \<and> j < length (bs @ [N]) \<and> i \<noteq> j"
  consider "i < length bs" "j < length bs" | "i = length bs" "j < length bs"
    | "i < length bs" "j = length bs"
    using ij by (cases "i < length bs"; cases "j < length bs") auto
  then show "\<not> do_boxes_intersect ((bs @ [N]) ! i) [(bs @ [N]) ! j]"
  proof cases
    case 1
    with assms(1) ij show ?thesis by (simp add: separated_def nth_append)
  next
    case 2
    with assms(2) show ?thesis by (simp add: nth_append)
  next
    case 3
    with assms(2) have "\<not> do_boxes_intersect N [bs ! i]" by simp
    with 3 show ?thesis by (simp add: nth_append do_boxes_intersect_sym [of "bs ! i" N])
  qed
qed

lemma place_letter_separated:
  assumes "place_letter mo xd yd mb l s = Inr s'"
    and "separated (occupied_boxes s)"
    and "0 \<le> mo" "mo \<le> letter_w l" "mo \<le> letter_h l"
  shows "separated (occupied_boxes s')"
proof -
  from place_letter_Inr [OF assms(1)] obtain x y where
    xy: "(x, y) \<in> set (anchor_candidates (letter_w l) (letter_h l) xd yd (occupied_boxes s))"
    and occ: "occupied_boxes s' = occupied_boxes s @
        [((x + mo, y + mo), (letter_w l - 2 * mo, letter_h l - 2 * mo))]"
    by blast
  have "\<forall>B \<in> set (occupied_boxes s).
          \<not> do_boxes_intersect ((x + mo, y + mo), (letter_w l - 2 * mo, letter_h l - 2 * mo)) [B]"
    using candidate_deflated_free [OF xy assms(3-5)] by blast
  with assms(2) show ?thesis unfolding occ by (rule separated_snoc)
qed

subsection \<open>Evaluation of the concrete scenes\<close>

lemma valid_colors_set:
  "set (valid_colors b) =
     {(r, g, bl). 0 \<le> r \<and> r < 255 \<and> 0 \<le> g \<and> g < 255 \<and> 0 \<le> bl \<and> bl < 255 \<and> r + g + bl < b}"
  by (auto simp: valid_colors_def set_py_range)

lemma valid_colors_nonempty: "valid_colors b \<noteq> [] \<longleftrightarrow> 0 < b"
proof
  assume "valid_colors b \<noteq> []"
  then obtain c where "c \<in> set (valid_colors b)" by (cases "valid_colors b") auto
  then show "0 < b" by (auto simp: valid_colors_set)
next
  assume "0 < b"
  then have "(0, 0, 0) \<in> set (valid_colors b)" by (simp add: valid_colors_set)
  then show "valid_colors b \<noteq> []" by auto
qed

lemma valid_colors_zero: "valid_colors 0 = []"
  using valid_colors_nonempty [of 0] by simp

lemma random_color_initial:
  "random_color MAX_BRIGHTNESS k VALID_COLORS_initial =
     (Inr (valid_colors MAX_BRIGHTNESS ! (k mod length (valid_colors MAX_BRIGHTNESS))),
      VALID_COLORS_initial)"
proof -
  have "valid_colors MAX_BRIGHTNESS \<noteq> []"
    by (simp add: valid_colors_nonempty MAX_BRIGHTNESS_def)
  then show ?thesis
    by (simp add: random_color_def VALID_COLORS_initial_def random_choice_def)
qed

lemma anchor_first_wide:
  "random_anchor 24 24 50 26 (Some []) None (0, 0) = Inr (0, 0)"
  by code_simp

lemma anchor_second_wide:
  "random_anchor 24 24 50 26 (Some [((5, 5), (14, 14))]) None (0, 0) = Inr (20, 0)"
  by code_simp

lemma anchor_first_narrow:
  "random_anchor 24 24 26 25 (Some []) None (0, 0) = Inr (0, 0)"
  by code_simp

lemma anchor_second_narrow:
  "random_anchor 3 24 26 25 (Some [((5, 5), (14, 14))]) None (Suc 0, 0) = Inr (1, 0)"
  by code_simp

lemma first_letter_placed:
  "place_letter 5 50 26 MAX_BRIGHTNESS (letter_of_size 24 24 0) empty_state =
     Inr \<lparr>occupied_boxes = [((5, 5), (14, 14))],
          matches = [to_match_dict ''1'' ((0, 0), (24, 24)) []],
          VALID_COLORS = VALID_COLORS_initial\<rparr>"
  by (simp add: place_letter_def empty_state_def random_color_initial letter_of_size_def
        anchor_first_wide)

lemma second_letter_placed:
  "place_letter 5 50 26 MAX_BRIGHTNESS (letter_of_size 24 24 0)
     \<lparr>occupied_boxes = [((5, 5), (14, 14))],
      matches = [to_match_dict ''1'' ((0, 0), (24, 24)) []],
      VALID_COLORS = VALID_COLORS_initial\<rparr> =
     Inr \<lparr>occupied_boxes = [((5, 5), (14, 14)), ((25, 5), (14, 14))],
          matches = [to_match_dict ''1'' ((0, 0), (24, 24)) [],
                     to_match_dict ''1'' ((20, 0), (44, 24)) []],
          VALID_COLORS = VALID_COLORS_initial\<rparr>"
  by (simp add: place_letter_def random_color_initial letter_of_size_def anchor_second_wide)

lemma upt_two: "[0..<2] = [0, 1]"
  by (simp add: upt_rec)

lemma wide_scene:
  "create_random_image wide_config wide_environment VALID_COLORS_initial =
     Inr \<lparr>occupied_boxes = [((5, 5), (14, 14)), ((25, 5), (14, 14))],
          matches = [to_match_dict ''1'' ((0, 0), (24, 24)) [],
                     to_match_dict ''1'' ((20, 0), (44, 24)) []],
          VALID_COLORS = VALID_COLORS_initial\<rparr>"
  by (simp add: create_random_image_def wide_config_def wide_environment_def default_config_def
        random_randint_def upt_two place_letter_def random_color_initial letter_of_size_def
        anchor_first_wide anchor_second_wide)

lemma narrow_scene:
  "create_random_image narrow_config narrow_environment VALID_COLORS_initial =
     Inr \<lparr>occupied_boxes = [((5, 5), (14, 14)), ((6, 5), (- 7, 14))],
          matches = [to_match_dict ''1'' ((0, 0), (24, 24)) [],
                     to_match_dict ''1'' ((1, 0), (4, 24)) []],
          VALID_COLORS = VALID_COLORS_initial\<rparr>"
  by (simp add: create_random_image_def narrow_config_def narrow_environment_def default_config_def
        random_randint_def upt_two place_letter_def random_color_initial letter_of_size_def
        anchor_first_narrow anchor_second_narrow)

section \<open>Placement properties\<close>

text \<open>
  Claim C9: in every scene that \<^verbatim>\<open>create_random_image\<close> returns, every match's bounding
  box \<open>((x, y), (x + w, y + h))\<close> lies within the canvas: \<open>0 \<le> x\<close>, \<open>x + w \<le> xdimension\<close>,
  \<open>0 \<le> y\<close>, \<open>y + h \<le> ydimension\<close>.
\<close>

theorem C9_matches_within_canvas:
  assumes "create_random_image cfg env colors = Inr st"
  shows "\<forall>mt \<in> set (matches st). within_canvas (xdimension cfg) (ydimension cfg) mt"
proof -
  from create_random_image_cases [OF assms] obtain n where
    loop: "place_letters (max_overlap cfg) (xdimension cfg) (ydimension cfg) (max_brightness cfg)
       (map (letter_at env) [0..<nat n])
       \<lparr>occupied_boxes = [], matches = [], VALID_COLORS = colors\<rparr> = Inr st"
    by blast
  show ?thesis
    by (rule place_letters_invariant [OF loop,
          where I = "\<lambda>s. \<forall>mt \<in> set (matches s). within_canvas (xdimension cfg) (ydimension cfg) mt"])
       (simp, rule place_letter_within)
qed

theorem C9_matches_within_canvas_witness:
  "\<exists>st. create_random_image wide_config wide_environment VALID_COLORS_initial = Inr st \<and>
        length (matches st) = 2 \<and>
        within_canvas 50 26 (matches st ! 0) \<and> within_canvas 50 26 (matches st ! 1)"
proof -
  let ?st = "\<lparr>occupied_boxes = [((5, 5), (14, 14)), ((25, 5), (14, 14))],
          matches = [to_match_dict ''1'' ((0, 0), (24, 24)) [],
                     to_match_dict ''1'' ((20, 0), (44, 24)) []],
          VALID_COLORS = VALID_COLORS_initial\<rparr>"
  have "\<forall>mt \<in> set (matches ?st). within_canvas (xdimension wide_config) (ydimension wide_config) mt"
    by (rule C9_matches_within_canvas [OF wide_scene])
  then have "within_canvas 50 26 (matches ?st ! 0) \<and> within_canvas 50 26 (matches ?st ! 1)"
    by (simp add: wide_config_def default_config_def)
  with wide_scene show ?thesis by simp
qed

text \<open>
  Claim C1 says that in every scene no two matches have occupied regions that satisfy
  \<^verbatim>\<open>do_boxes_intersect\<close>. A letter narrower than the margin breaks it: on a canvas of
  26 by 25 pixels with margin 5, a letter of 24 by 24 is placed at \<open>(0, 0)\<close> and a letter
  of 3 by 24 at \<open>(1, 0)\<close>; the recorded regions \<open>((5, 5), (14, 14))\<close> and
  \<open>((6, 5), (-7, 14))\<close> satisfy the predicate.
\<close>

theorem C1_thin_letter_regions_intersect:
  "\<exists>st. create_random_image narrow_config narrow_environment VALID_COLORS_initial = Inr st \<and>
        length (matches st) = 2 \<and>
        bounding_box (matches st ! 0) = ((0, 0), (24, 24)) \<and>
        bounding_box (matches st ! 1) = ((1, 0), (4, 24)) \<and>
        occupied_boxes st = [((5, 5), (14, 14)), ((6, 5), (- 7, 14))] \<and>
        do_boxes_intersect (occupied_boxes st ! 0) [occupied_boxes st ! 1] \<and>
        do_boxes_intersect (occupied_boxes st ! 1) [occupied_boxes st ! 0]"
  by (simp add: narrow_scene to_match_dict_def)

text \<open>
  Claim C1, as the code has it: when the margin \<^verbatim>\<open>max_overlap\<close> is not negative and no
  letter is narrower or lower than the margin, the occupied box recorded for each match
  is its bounding box moved inwards by the margin, and no two of them satisfy
  \<^verbatim>\<open>do_boxes_intersect\<close>.
\<close>

theorem C1_regions_separated:
  assumes "create_random_image cfg env colors = Inr st"
    and "0 \<le> max_overlap cfg"
    and "\<forall>i. max_overlap cfg \<le> letter_w (letter_at env i) \<and> max_overlap cfg \<le> letter_h (letter_at env i)"
  shows "occupied_boxes st = map (occupied_region (max_overlap cfg)) (matches st) \<and>
         (\<forall>i j. i < length (matches st) \<and> j < length (matches st) \<and> i \<noteq> j \<longrightarrow>
            \<not> do_boxes_intersect (occupied_boxes st ! i) [occupied_boxes st ! j])"
proof -
  let ?mo = "max_overlap cfg"
  let ?I = "\<lambda>s. occupied_boxes s = map (occupied_region ?mo) (matches s) \<and> separated (occupied_boxes s)"
  from create_random_image_cases [OF assms(1)] obtain n where
    loop: "place_letters ?mo (xdimension cfg) (ydimension cfg) (max_brightness cfg)
       (map (letter_at env) [0..<nat n])
       \<lparr>occupied_boxes = [], matches = [], VALID_COLORS = colors\<rparr> = Inr st"
    by blast
  have "?I st"
  proof (rule place_letters_invariant [OF loop, where I = ?I])
    show "?I \<lparr>occupied_boxes = [], matches = [], VALID_COLORS = colors\<rparr>"
      by (simp add: separated_def)
  next
    fix l s s'
    assume l: "l \<in> set (map (letter_at env) [0..<nat n])" and I: "?I s"
      and step: "place_letter ?mo (xdimension cfg) (ydimension cfg) (max_brightness cfg) l s = Inr s'"
    from l assms(3) have "?mo \<le> letter_w l" "?mo \<le> letter_h l" by auto
    with step I assms(2) show "?I s'"
      using place_letter_regions place_letter_separated by blast
  qed
  then have eq: "occupied_boxes st = map (occupied_region ?mo) (matches st)"
    and sep: "separated (occupied_boxes st)"
    by blast+
  have len: "length (matches st) = length (occupied_boxes st)"
    by (subst eq) simp
  from sep have "\<forall>i j. i < length (matches st) \<and> j < length (matches st) \<and> i \<noteq> j \<longrightarrow>
            \<not> do_boxes_intersect (occupied_boxes st ! i) [occupied_boxes st ! j]"
    unfolding separated_def len .
  with eq show ?thesis by blast
qed

theorem C1_regions_separated_witness:
  "\<exists>st. create_random_image wide_config wide_environment VALID_COLORS_initial = Inr st \<and>
        length (matches st) = 2 \<and>
        \<not> do_boxes_intersect (occupied_boxes st ! 0) [occupied_boxes st ! 1] \<and>
        \<not> do_boxes_intersect (occupied_boxes st ! 1) [occupied_boxes st ! 0]"
proof -
  let ?st = "\<lparr>occupied_boxes = [((5, 5), (14, 14)), ((25, 5), (14, 14))],
          matches = [to_match_dict ''1'' ((0, 0), (24, 24)) [],
                     to_match_dict ''1'' ((20, 0), (44, 24)) []],
          VALID_COLORS = VALID_COLORS_initial\<rparr>"
  have m: "0 \<le> max_overlap wide_config"
    by (simp add: wide_config_def default_config_def)
  have sz: "\<forall>i. max_overlap wide_config \<le> letter_w (letter_at wide_environment i) \<and>
                max_overlap wide_config \<le> letter_h (letter_at wide_environment i)"
    by (simp add: wide_config_def default_config_def wide_environment_def letter_of_size_def)
  from C1_regions_separated [OF wide_scene m sz]
  have "\<forall>i j. i < length (matches ?st) \<and> j < length (matches ?st) \<and> i \<noteq> j \<longrightarrow>
            \<not> do_boxes_intersect (occupied_boxes ?st ! i) [occupied_boxes ?st ! j]"
    by blast
  then have "\<not> do_boxes_intersect (occupied_boxes ?st ! 0) [occupied_boxes ?st ! 1] \<and>
             \<not> do_boxes_intersect (occupied_boxes ?st ! 1) [occupied_boxes ?st ! 0]"
    by simp
  with wide_scene show ?thesis by simp
qed

text \<open>
  Claim C3 says that the region recorded for a letter at \<open>(x, y)\<close> of size \<open>(w, h)\<close> with
  margin \<open>m\<close> is the bounding box inflated by \<open>m\<close>, covering \<open>(x - m, y - m)\<close> to
  \<open>(x + w + m, y + h + m)\<close>. For the first letter of the wide scene (24 by 24 at
  \<open>(0, 0)\<close>, margin 5) the recorded region is \<open>((5, 5), (14, 14))\<close>, which does not cover
  the box from \<open>(-5, -5)\<close> to \<open>(29, 29)\<close>.
\<close>

theorem C3_region_not_inflated:
  "\<exists>st. place_letter 5 50 26 MAX_BRIGHTNESS (letter_of_size 24 24 0) empty_state = Inr st \<and>
        bounding_box (last (matches st)) = ((0, 0), (0 + 24, 0 + 24)) \<and>
        last (occupied_boxes st) = ((5, 5), (14, 14)) \<and>
        \<not> box_contains (last (occupied_boxes st)) ((0 - 5, 0 - 5), (24 + 2 * 5, 24 + 2 * 5))"
  by (simp add: first_letter_placed to_match_dict_def box_contains_def)

text \<open>
  Claim C3, as the code has it: one iteration of the loop that places a letter of size
  \<open>(w, h)\<close> at \<open>(x, y)\<close> appends the match with bounding box \<open>((x, y), (x + w, y + h))\<close>
  and the occupied box \<open>((x + m, y + m), (w - 2m, h - 2m))\<close>, the bounding box deflated
  by the margin on every side. Every later iteration that finds this box among the
  occupied boxes places its letter at an anchor where the letter's box does not
  intersect the deflated box.
\<close>

theorem C3_recorded_region_deflated:
  assumes "place_letter m xd yd mb l st = Inr st'"
  shows "\<exists>x y. matches st' = matches st @
              [to_match_dict (letter_label l) ((x, y), (x + letter_w l, y + letter_h l)) (letter_mask l)] \<and>
           occupied_boxes st' = occupied_boxes st @
              [((x + m, y + m), (letter_w l - 2 * m, letter_h l - 2 * m))] \<and>
           (\<forall>l2 st2 st3.
              ((x + m, y + m), (letter_w l - 2 * m, letter_h l - 2 * m)) \<in> set (occupied_boxes st2) \<and>
              place_letter m xd yd mb l2 st2 = Inr st3 \<longrightarrow>
              (\<exists>x2 y2. matches st3 = matches st2 @
                   [to_match_dict (letter_label l2) ((x2, y2), (x2 + letter_w l2, y2 + letter_h l2))
                      (letter_mask l2)] \<and>
                 \<not> do_boxes_intersect ((x2, y2), (letter_w l2, letter_h l2))
                      [((x + m, y + m), (letter_w l - 2 * m, letter_h l - 2 * m))]))"
proof -
  from place_letter_Inr [OF assms] obtain x y where
    occ: "occupied_boxes st' = occupied_boxes st @
        [((x + m, y + m), (letter_w l - 2 * m, letter_h l - 2 * m))]"
    and ms: "matches st' = matches st @
        [to_match_dict (letter_label l) ((x, y), (x + letter_w l, y + letter_h l)) (letter_mask l)]"
    by blast
  let ?R = "((x + m, y + m), (letter_w l - 2 * m, letter_h l - 2 * m))"
  have later: "\<exists>x2 y2. matches st3 = matches st2 @
                   [to_match_dict (letter_label l2) ((x2, y2), (x2 + letter_w l2, y2 + letter_h l2))
                      (letter_mask l2)] \<and>
                 \<not> do_boxes_intersect ((x2, y2), (letter_w l2, letter_h l2)) [?R]"
    if R: "?R \<in> set (occupied_boxes st2)" and step: "place_letter m xd yd mb l2 st2 = Inr st3"
    for l2 st2 st3
  proof -
    from place_letter_Inr [OF step] obtain x2 y2 where
      cand: "(x2, y2) \<in> set (anchor_candidates (letter_w l2) (letter_h l2) xd yd (occupied_boxes st2))"
      and ms2: "matches st3 = matches st2 @
        [to_match_dict (letter_label l2) ((x2, y2), (x2 + letter_w l2, y2 + letter_h l2)) (letter_mask l2)]"
      by blast
    from cand have "\<not> do_boxes_intersect ((x2, y2), (letter_w l2, letter_h l2)) (occupied_boxes st2)"
      by (simp add: set_anchor_candidates)
    with R have "\<not> do_boxes_intersect ((x2, y2), (letter_w l2, letter_h l2)) [?R]"
      using do_boxes_intersect_iff by blast
    with ms2 show ?thesis by blast
  qed
  from ms occ later show ?thesis by blast
qed

theorem C3_recorded_region_deflated_witness:
  "\<exists>st st2.
      place_letter 5 50 26 MAX_BRIGHTNESS (letter_of_size 24 24 0) empty_state = Inr st \<and>
      matches st = [to_match_dict ''1'' ((0, 0), (24, 24)) []] \<and>
      occupied_boxes st = [((0 + 5, 0 + 5), (24 - 2 * 5, 24 - 2 * 5))] \<and>
      place_letter 5 50 26 MAX_BRIGHTNESS (letter_of_size 24 24 0) st = Inr st2 \<and>
      bounding_box (last (matches st2)) = ((20, 0), (44, 24)) \<and>
      \<not> do_boxes_intersect ((20, 0), (24, 24)) [((5, 5), (14, 14))] \<and>
      do_boxes_intersect ((20, 0), (24, 24)) [((0, 0), (24, 24))]"
proof -
  let ?l = "letter_of_size 24 24 0"
  let ?st = "\<lparr>occupied_boxes = [((5, 5), (14, 14))],
          matches = [to_match_dict ''1'' ((0, 0), (24, 24)) []],
          VALID_COLORS = VALID_COLORS_initial\<rparr>"
  let ?st2 = "\<lparr>occupied_boxes = [((5, 5), (14, 14)), ((25, 5), (14, 14))],
          matches = [to_match_dict ''1'' ((0, 0), (24, 24)) [],
                     to_match_dict ''1'' ((20, 0), (44, 24)) []],
          VALID_COLORS = VALID_COLORS_initial\<rparr>"
  from C3_recorded_region_deflated [OF first_letter_placed] obtain x y where
    ms: "matches ?st = matches empty_state @
           [to_match_dict (letter_label ?l) ((x, y), (x + letter_w ?l, y + letter_h ?l))
              (letter_mask ?l)]"
    and later: "\<forall>l2 st2 st3.
        ((x + 5, y + 5), (letter_w ?l - 2 * 5, letter_h ?l - 2 * 5)) \<in> set (occupied_boxes st2) \<and>
        place_letter 5 50 26 MAX_BRIGHTNESS l2 st2 = Inr st3 \<longrightarrow>
        (\<exists>x2 y2. matches st3 = matches st2 @
             [to_match_dict (letter_label l2) ((x2, y2), (x2 + letter_w l2, y2 + letter_h l2))
                (letter_mask l2)] \<and>
           \<not> do_boxes_intersect ((x2, y2), (letter_w l2, letter_h l2))
                [((x + 5, y + 5), (letter_w ?l - 2 * 5, letter_h ?l - 2 * 5))])"
    by (elim exE conjE)
  from ms have xy: "x = 0" "y = 0"
    by (simp_all add: to_match_dict_def empty_state_def letter_of_size_def)
  have "((x + 5, y + 5), (letter_w ?l - 2 * 5, letter_h ?l - 2 * 5)) \<in> set (occupied_boxes ?st)"
    by (simp add: xy letter_of_size_def)
  with later second_letter_placed obtain x2 y2 where
    ms2: "matches ?st2 = matches ?st @
             [to_match_dict (letter_label ?l) ((x2, y2), (x2 + letter_w ?l, y2 + letter_h ?l))
                (letter_mask ?l)]"
    and free: "\<not> do_boxes_intersect ((x2, y2), (letter_w ?l, letter_h ?l))
                [((x + 5, y + 5), (letter_w ?l - 2 * 5, letter_h ?l - 2 * 5))]"
    by blast
  from ms2 have "x2 = 20" "y2 = 0"
    by (simp_all add: to_match_dict_def letter_of_size_def)
  with free xy have apart: "\<not> do_boxes_intersect ((20, 0), (24, 24)) [((5, 5), (14, 14))]"
    by (simp add: letter_of_size_def)
  show ?thesis
  proof (rule exI [of _ ?st], rule exI [of _ ?st2], intro conjI)
    show "place_letter 5 50 26 MAX_BRIGHTNESS ?l empty_state = Inr ?st"
      by (rule first_letter_placed)
    show "matches ?st = [to_match_dict ''1'' ((0, 0), (24, 24)) []]"
      by simp
    show "occupied_boxes ?st = [((0 + 5, 0 + 5), (24 - 2 * 5, 24 - 2 * 5))]"
      by simp
    show "place_letter 5 50 26 MAX_BRIGHTNESS ?l ?st = Inr ?st2"
      by (rule second_letter_placed)
    show "bounding_box (last (matches ?st2)) = ((20, 0), (44, 24))"
      by (simp add: to_match_dict_def)
    show "\<not> do_boxes_intersect ((20, 0), (24, 24)) [((5, 5), (14, 14))]"
      by (rule apart)
    show "do_boxes_intersect ((20, 0), (24, 24)) [((0, 0), (24, 24))]"
      by simp
  qed
qed

text \<open>
  Claim C2 says that with occupied regions the candidates are all anchors with \<open>x\<close> in
  \<open>[0, canvas_width - box_width]\<close> and \<open>y\<close> in \<open>[0, canvas_height - box_height]\<close>, both
  ends included, that do not intersect an occupied region. The code enumerates
  \<^verbatim>\<open>range(0, xdimension-w)\<close> and \<^verbatim>\<open>range(0, ydimension-h)\<close>, which leave the last anchor
  of each axis out, while the branch without occupied regions draws with
  \<^verbatim>\<open>random.randint(0, xdimension - w)\<close>, which includes it. For a box of 2 by 2 on a
  canvas of 3 by 3 with one far-away occupied region the only candidate is \<open>(0, 0)\<close>,
  although \<open>(1, 1)\<close> is free; a box as large as the canvas has no candidate at all.
\<close>

theorem C2_last_anchor_left_out:
  "anchor_candidates 2 2 3 3 [((10, 10), (1, 1))] = [(0, 0)] \<and>
   \<not> do_boxes_intersect ((1, 1), (2, 2)) [((10, 10), (1, 1))] \<and>
   (\<forall>d. random_anchor 2 2 3 3 (Some [((10, 10), (1, 1))]) None d = Inr (0, 0)) \<and>
   (\<forall>d. random_anchor 3 3 3 3 (Some [((10, 10), (1, 1))]) None d = Inl IndexError) \<and>
   random_anchor 2 2 3 3 None None (1, 1) = Inr (1, 1) \<and>
   random_anchor 3 3 3 3 None None (0, 0) = Inr (0, 0)"
proof -
  have a: "anchor_candidates 2 2 3 3 [((10, 10), (1, 1))] = [(0, 0)]" by code_simp
  have b: "anchor_candidates 3 3 3 3 [((10, 10), (1, 1))] = []" by code_simp
  have c: "random_anchor 2 2 3 3 None None (1, 1) = Inr (1, 1)" by code_simp
  have d: "random_anchor 3 3 3 3 None None (0, 0) = Inr (0, 0)" by code_simp
  have e: "\<not> do_boxes_intersect ((1, 1), (2, 2)) [((10, 10), (1, 1))]" by simp
  have f: "\<forall>d. random_anchor 2 2 3 3 (Some [((10, 10), (1, 1))]) None d = Inr (0, 0)"
    by (simp add: random_anchor_occupied a random_choice_def)
  have g: "\<forall>d. random_anchor 3 3 3 3 (Some [((10, 10), (1, 1))]) None d = Inl IndexError"
    by (simp add: random_anchor_occupied b random_choice_def)
  from a e f g c d show ?thesis by blast
qed

text \<open>
  Claim C5 says that a placement without any valid anchor fails with a distinct
  \<^verbatim>\<open>NoValidAnchorError\<close>. On a canvas of 3 by 3 that is occupied entirely, a box of 2 by
  2 has no free anchor, and the call ends in the \<^verbatim>\<open>IndexError\<close> of \<^verbatim>\<open>random.choice\<close>: the
  same error an empty set of colours gives.
\<close>

theorem C5_failure_is_generic_IndexError:
  "do_boxes_intersect ((0, 0), (2, 2)) [((0, 0), (3, 3))] \<and>
   do_boxes_intersect ((0, 1), (2, 2)) [((0, 0), (3, 3))] \<and>
   do_boxes_intersect ((1, 0), (2, 2)) [((0, 0), (3, 3))] \<and>
   do_boxes_intersect ((1, 1), (2, 2)) [((0, 0), (3, 3))] \<and>
   random_anchor 2 2 3 3 (Some [((0, 0), (3, 3))]) None (0, 0) = Inl IndexError \<and>
   fst (random_color 0 0 Map.empty) = Inl IndexError"
proof -
  have "random_anchor 2 2 3 3 (Some [((0, 0), (3, 3))]) None (0, 0) = Inl IndexError"
    by code_simp
  then show ?thesis
    by (simp add: random_color_def valid_colors_zero random_choice_def)
qed

text \<open>
  Claim C5, as the code has it: when every anchor the code enumerates intersects an
  occupied region (in particular when every anchor of the inclusive range does),
  \<^verbatim>\<open>random_anchor\<close> with a list of occupied regions and no precomputed anchors raises
  the \<^verbatim>\<open>IndexError\<close> of \<^verbatim>\<open>random.choice\<close> on the empty list and returns no position.
\<close>

theorem C5_no_anchor_raises_IndexError:
  assumes "\<forall>x y. 0 \<le> x \<and> x < xd - w \<and> 0 \<le> y \<and> y < yd - h \<longrightarrow>
             do_boxes_intersect ((x, y), (w, h)) occ"
  shows "random_anchor w h xd yd (Some occ) None d = Inl IndexError \<and>
         random_anchor w h xd yd (Some occ) (Some []) d = Inl IndexError"
proof -
  have "set (anchor_candidates w h xd yd occ) = {}"
    using assms by (auto simp: set_anchor_candidates)
  then have "anchor_candidates w h xd yd occ = []" by simp
  then show ?thesis by (simp add: random_anchor_occupied random_choice_def)
qed

theorem C5_no_anchor_raises_IndexError_witness:
  "random_anchor 2 2 3 3 (Some [((0, 0), (3, 3))]) None (0, 0) = Inl IndexError \<and>
   random_anchor 2 2 3 3 (Some [((0, 0), (3, 3))]) (Some []) (0, 0) = Inl IndexError"
proof -
  have "\<forall>x y. 0 \<le> x \<and> x < 3 - 2 \<and> 0 \<le> y \<and> y < 3 - 2 \<longrightarrow>
          do_boxes_intersect ((x, y), (2, 2)) [((0, 0), (3, 3))]"
    by auto
  from C5_no_anchor_raises_IndexError [OF this] show ?thesis by blast
qed

section \<open>Glyph extraction\<close>

lemma Min_insert_min:
  "finite S \<Longrightarrow> Min (insert (min x a) S) = Min (insert a (insert x S))"
  by (cases "S = {}") (auto simp: min.commute min.left_commute min.assoc)

lemma Max_insert_max:
  "finite S \<Longrightarrow> Max (insert (max x a) S) = Max (insert a (insert x S))"
  by (cases "S = {}") (auto simp: max.commute max.left_commute max.assoc)

lemma contours_loop_box:
  "fst (contours_loop lib col cnts ((a, b, c, d), img)) =
     (Min (insert a (set (map (rect_left \<circ> boundingRect lib) cnts))),
      Min (insert b (set (map (rect_top \<circ> boundingRect lib) cnts))),
      Max (insert c (set (map (rect_right \<circ> boundingRect lib) cnts))),
      Max (insert d (set (map (rect_bottom \<circ> boundingRect lib) cnts))))"
proof (induction cnts arbitrary: a b c d img)
  case Nil
  then show ?case by simp
next
  case (Cons cnt cnts)
  obtain x y w h where r: "boundingRect lib cnt = (x, y, w, h)"
    by (metis prod_cases4)
  show ?case
    by (simp add: r Cons.IH Min_insert_min Max_insert_max
          rect_left_def rect_top_def rect_right_def rect_bottom_def)
qed

text \<open>
  Claim C8: for every mask with at least one contour, \<^verbatim>\<open>max_bounding_box\<close> returns
  \<open>((xmin, ymin), (xmax, ymax))\<close>, where \<open>xmin\<close> and \<open>ymin\<close> are the least left and top
  coordinates and \<open>xmax\<close> and \<open>ymax\<close> the greatest right and bottom coordinates over the
  bounding rectangles of all contours. The extrema are taken over the contours' boxes
  only: the accumulator starts from the first contour's box, not from a box at the
  origin.
\<close>

theorem C8_union_of_contour_boxes:
  assumes "findContours lib m \<noteq> []"
  shows "\<exists>drawn. max_bounding_box lib m img col =
     Inr (((Min (set (map (rect_left \<circ> boundingRect lib) (findContours lib m))),
            Min (set (map (rect_top \<circ> boundingRect lib) (findContours lib m)))),
           (Max (set (map (rect_right \<circ> boundingRect lib) (findContours lib m))),
            Max (set (map (rect_bottom \<circ> boundingRect lib) (findContours lib m))))),
          drawn)"
proof -
  from assms obtain cnt0 rest where cs: "findContours lib m = cnt0 # rest"
    by (cases "findContours lib m") auto
  obtain x0 y0 w0 h0 where r0: "boundingRect lib cnt0 = (x0, y0, w0, h0)"
    by (metis prod_cases4)
  let ?res = "contours_loop lib col (cnt0 # rest) ((x0, y0, x0 + w0, y0 + h0), img)"
  have seed: "rect_left (boundingRect lib cnt0) = x0" "rect_top (boundingRect lib cnt0) = y0"
    "rect_right (boundingRect lib cnt0) = x0 + w0" "rect_bottom (boundingRect lib cnt0) = y0 + h0"
    by (simp_all add: r0 rect_left_def rect_top_def rect_right_def rect_bottom_def)
  have box: "fst ?res =
     (Min (set (map (rect_left \<circ> boundingRect lib) (cnt0 # rest))),
      Min (set (map (rect_top \<circ> boundingRect lib) (cnt0 # rest))),
      Max (set (map (rect_right \<circ> boundingRect lib) (cnt0 # rest))),
      Max (set (map (rect_bottom \<circ> boundingRect lib) (cnt0 # rest))))"
    unfolding contours_loop_box by (simp add: seed)
  obtain xmin ymin xmax ymax drawn where res: "?res = ((xmin, ymin, xmax, ymax), drawn)"
    by (metis prod_cases4 surj_pair)
  have "max_bounding_box lib m img col = Inr (((xmin, ymin), (xmax, ymax)), drawn)"
    using res by (simp add: max_bounding_box_def cs r0 del: contours_loop.simps)
  moreover from box have "(xmin, ymin, xmax, ymax) =
     (Min (set (map (rect_left \<circ> boundingRect lib) (cnt0 # rest))),
      Min (set (map (rect_top \<circ> boundingRect lib) (cnt0 # rest))),
      Max (set (map (rect_right \<circ> boundingRect lib) (cnt0 # rest))),
      Max (set (map (rect_bottom \<circ> boundingRect lib) (cnt0 # rest))))"
    unfolding res by simp
  ultimately show ?thesis unfolding cs by blast
qed

theorem C8_union_of_contour_boxes_witness:
  "findContours gray_lib [[0, 0, 0], [0, 0, 255], [0, 255, 0]] \<noteq> [] \<and>
   max_bounding_box gray_lib [[0, 0, 0], [0, 0, 255], [0, 255, 0]] None BOUNDING_BOX_COLOR =
     Inr (((1, 1), (3, 3)), None)"
proof -
  let ?m = "[[0, 0, 0], [0, 0, 255], [0, 255, 0 :: int]]"
  have cs: "findContours gray_lib ?m = [[(2, 1)], [(1, 2)]]" by code_simp
  have ne: "findContours gray_lib ?m \<noteq> []" by (simp add: cs)
  have r: "boundingRect gray_lib [(2, 1)] = (2, 1, 1, 1)" "boundingRect gray_lib [(1, 2)] = (1, 2, 1, 1)"
    by code_simp+
  from C8_union_of_contour_boxes [OF ne, of None BOUNDING_BOX_COLOR]
  obtain drawn where "max_bounding_box gray_lib ?m None BOUNDING_BOX_COLOR =
       Inr (((1, 1), (3, 3)), drawn)"
    by (auto simp: cs r rect_left_def rect_top_def rect_right_def rect_bottom_def)
  moreover have "max_bounding_box gray_lib ?m None BOUNDING_BOX_COLOR = Inr (((1, 1), (3, 3)), None)"
    by code_simp
  ultimately show ?thesis using ne by simp
qed

text \<open>
  Claim C6 says that an image without foreground contours makes the extraction fail with
  a distinct \<^verbatim>\<open>NoContoursError\<close>. For an image whose pixels are all at or below the
  threshold, \<^verbatim>\<open>contours[0]\<close> raises the \<^verbatim>\<open>IndexError\<close> of list indexing, in
  \<^verbatim>\<open>max_bounding_box\<close> and through it in \<^verbatim>\<open>crop_and_mask\<close>: the same error
  \<^verbatim>\<open>random.choice\<close> gives on an empty sequence.
\<close>

theorem C6_failure_is_generic_IndexError:
  "findContours gray_lib (mask_by_threshold gray_lib [[0, 20], [99, 100]] THRESHOLD True) = [] \<and>
   crop_and_mask gray_lib [[0, 20], [99, 100]] True False = Inl IndexError \<and>
   crop_and_mask gray_lib [[0, 20], [99, 100]] True True = Inl IndexError \<and>
   max_bounding_box gray_lib [[0, 0], [0, 0]] None BOUNDING_BOX_COLOR = Inl IndexError \<and>
   random_choice ([] :: color list) 0 = Inl IndexError"
  by code_simp

text \<open>
  Claim C6, as the code has it: when \<^verbatim>\<open>cv2.findContours\<close> returns no contour,
  \<^verbatim>\<open>max_bounding_box\<close> raises \<^verbatim>\<open>IndexError\<close> at \<^verbatim>\<open>contours[0]\<close>, and \<^verbatim>\<open>crop_and_mask\<close>
  passes the error on, with or without \<^verbatim>\<open>debug\<close>; no box, crop or mask is returned.
\<close>

theorem C6_no_contours_raises_IndexError:
  "(findContours lib m = [] \<longrightarrow> max_bounding_box lib m img col = Inl IndexError) \<and>
   (findContours lib (mask_by_threshold lib im THRESHOLD inverted) = [] \<longrightarrow>
      crop_and_mask lib im inverted debug = Inl IndexError)"
  by (simp add: max_bounding_box_def crop_and_mask_def)

theorem C6_no_contours_raises_IndexError_witness:
  "findContours gray_lib [[0, 0], [0, 0]] = [] \<and>
   max_bounding_box gray_lib [[0, 0], [0, 0]] None BOUNDING_BOX_COLOR = Inl IndexError \<and>
   findContours gray_lib (mask_by_threshold gray_lib [[0, 20], [99, 100]] THRESHOLD True) = [] \<and>
   crop_and_mask gray_lib [[0, 20], [99, 100]] True False = Inl IndexError"
proof -
  have a: "findContours gray_lib [[0, 0], [0, 0]] = []" by code_simp
  have b: "findContours gray_lib (mask_by_threshold gray_lib [[0, 20], [99, 100]] THRESHOLD True) = []"
    by code_simp
  from C6_no_contours_raises_IndexError
         [of gray_lib "[[0, 0], [0, 0]]" None BOUNDING_BOX_COLOR "[[0, 20], [99, 100]]" True False]
       a b
  show ?thesis by blast
qed

section \<open>Colours\<close>

lemma distinct_concat_map:
  assumes "distinct xs"
    and "\<And>x. x \<in> set xs \<Longrightarrow> distinct (f x)"
    and "\<And>x y. x \<in> set xs \<Longrightarrow> y \<in> set xs \<Longrightarrow> x \<noteq> y \<Longrightarrow> set (f x) \<inter> set (f y) = {}"
  shows "distinct (concat (map f xs))"
  using assms
proof (induction xs)
  case Nil
  then show ?case by simp
next
  case (Cons x xs)
  have "distinct (concat (map f xs))"
    by (rule Cons.IH) (use Cons.prems in auto)
  moreover have "distinct (f x)" using Cons.prems(2) by simp
  moreover have "set (f x) \<inter> set (concat (map f xs)) = {}"
  proof -
    have "set (f x) \<inter> set (f y) = {}" if "y \<in> set xs" for y
      using Cons.prems(1) Cons.prems(3) [of x y] that by auto
    then show ?thesis by auto
  qed
  ultimately show ?case by simp
qed

lemma distinct_py_range: "distinct (py_range a b)"
  by (simp add: py_range_def)

lemma valid_colors_distinct: "distinct (valid_colors b)"
  unfolding valid_colors_def
  by (intro distinct_concat_map distinct_py_range) auto

lemma cache_ok_initial: "cache_ok VALID_COLORS_initial"
  by (simp add: cache_ok_def VALID_COLORS_initial_def)

lemma cache_ok_update: "cache_ok colors \<Longrightarrow> cache_ok (colors(b \<mapsto> valid_colors b))"
  by (simp add: cache_ok_def)

lemma cache_ok_stored: "cache_ok colors \<Longrightarrow> b \<in> dom colors \<Longrightarrow> colors b = Some (valid_colors b)"
  by (auto simp: cache_ok_def)

lemma random_color_stored:
  "random_color b k (colors(b \<mapsto> stored)) = (random_choice stored k, colors(b \<mapsto> stored))"
  by (simp add: random_color_def)

text \<open>
  Claim C7: for every \<open>b\<close> with \<open>0 < b\<close> (the values for which a valid colour exists), and every
  dictionary \<^verbatim>\<open>VALID_COLORS\<close> whose entries are correct (as the initial one is, and as
  every call leaves it), \<^verbatim>\<open>random_color(b)\<close> returns a triple with every channel in
  \<open>[0, 255)\<close> and channel sum below \<open>b\<close>. The triple is the element at the drawn index
  of a list without duplicates that holds exactly the triples of that kind, so a uniform
  index gives a uniform colour. The list is stored under \<open>b\<close> at the first request; a
  dictionary that has the key is left as it is, and a call that finds the key chooses
  from the stored list, whatever it holds.
\<close>

theorem C7_random_color:
  assumes "cache_ok colors" and "0 < b"
  shows "\<exists>c. random_color b k colors = (Inr c, colors(b \<mapsto> valid_colors b)) \<and>
          c = valid_colors b ! (k mod length (valid_colors b)) \<and>
          (case c of (r, g, bl) \<Rightarrow>
             0 \<le> r \<and> r < 255 \<and> 0 \<le> g \<and> g < 255 \<and> 0 \<le> bl \<and> bl < 255 \<and> r + g + bl < b) \<and>
          distinct (valid_colors b) \<and>
          set (valid_colors b) =
            {(r, g, bl). 0 \<le> r \<and> r < 255 \<and> 0 \<le> g \<and> g < 255 \<and> 0 \<le> bl \<and> bl < 255 \<and>
                         r + g + bl < b} \<and>
          cache_ok (colors(b \<mapsto> valid_colors b)) \<and>
          (b \<in> dom colors \<longrightarrow> colors(b \<mapsto> valid_colors b) = colors) \<and>
          (\<forall>stored k'. random_color b k' (colors(b \<mapsto> stored)) =
                         (random_choice stored k', colors(b \<mapsto> stored)))"
proof -
  have ne: "valid_colors b \<noteq> []"
    using assms(2) by (simp add: valid_colors_nonempty)
  let ?c = "valid_colors b ! (k mod length (valid_colors b))"
  have same: "colors(b \<mapsto> valid_colors b) = colors" if "b \<in> dom colors"
    using cache_ok_stored [OF assms(1) that] by (simp add: map_upd_triv)
  have call: "random_color b k colors = (Inr ?c, colors(b \<mapsto> valid_colors b))"
  proof (cases "b \<in> dom colors")
    case True
    then have "colors b = Some (valid_colors b)" by (rule cache_ok_stored [OF assms(1)])
    with True ne same show ?thesis
      by (simp add: random_color_def random_choice_def)
  next
    case False
    with ne show ?thesis
      by (simp add: random_color_def random_choice_def)
  qed
  have "k mod length (valid_colors b) < length (valid_colors b)"
    using ne by simp
  then have mem: "?c \<in> set (valid_colors b)" by (rule nth_mem)
  obtain r g bl where c: "?c = (r, g, bl)" by (metis prod_cases3)
  from mem have range: "case ?c of (r, g, bl) \<Rightarrow>
             0 \<le> r \<and> r < 255 \<and> 0 \<le> g \<and> g < 255 \<and> 0 \<le> bl \<and> bl < 255 \<and> r + g + bl < b"
    unfolding c valid_colors_set by simp
  have reuse: "\<forall>stored k'. random_color b k' (colors(b \<mapsto> stored)) =
                         (random_choice stored k', colors(b \<mapsto> stored))"
    by (simp add: random_color_stored)
  have keep: "b \<in> dom colors \<longrightarrow> colors(b \<mapsto> valid_colors b) = colors"
    using same by blast
  show ?thesis
    apply (rule exI [of _ ?c])
    apply (intro conjI)
           apply (rule call)
          apply (rule refl)
         apply (rule range)
        apply (rule valid_colors_distinct)
       apply (rule valid_colors_set)
      apply (rule cache_ok_update [OF assms(1)])
     apply (rule keep)
    apply (rule reuse)
    done
qed

theorem C7_random_color_witness:
  "\<exists>c. random_color MAX_BRIGHTNESS 0 VALID_COLORS_initial = (Inr c, VALID_COLORS_initial) \<and>
        (case c of (r, g, bl) \<Rightarrow>
           0 \<le> r \<and> r < 255 \<and> 0 \<le> g \<and> g < 255 \<and> 0 \<le> bl \<and> bl < 255 \<and> r + g + bl < 200)"
proof -
  have ne: "0 < MAX_BRIGHTNESS"
    by (simp add: MAX_BRIGHTNESS_def)
  have stored: "VALID_COLORS_initial(MAX_BRIGHTNESS \<mapsto> valid_colors MAX_BRIGHTNESS) = VALID_COLORS_initial"
    by (simp add: VALID_COLORS_initial_def)
  from C7_random_color [OF cache_ok_initial ne, of 0]
  obtain c where
    call: "random_color MAX_BRIGHTNESS 0 VALID_COLORS_initial =
             (Inr c, VALID_COLORS_initial(MAX_BRIGHTNESS \<mapsto> valid_colors MAX_BRIGHTNESS))"
    and range: "case c of (r, g, bl) \<Rightarrow>
           0 \<le> r \<and> r < 255 \<and> 0 \<le> g \<and> g < 255 \<and> 0 \<le> bl \<and> bl < 255 \<and> r + g + bl < MAX_BRIGHTNESS"
    by (elim exE conjE)
  from call have "random_color MAX_BRIGHTNESS 0 VALID_COLORS_initial = (Inr c, VALID_COLORS_initial)"
    by (simp only: stored)
  moreover from range have "case c of (r, g, bl) \<Rightarrow>
           0 \<le> r \<and> r < 255 \<and> 0 \<le> g \<and> g < 255 \<and> 0 \<le> bl \<and> bl < 255 \<and> r + g + bl < 200"
    by (simp only: MAX_BRIGHTNESS_def)
  ultimately show ?thesis by (intro exI conjI)
qed

section \<open>The blend weight\<close>




end
